theory Spec2Isabelle
  imports Complex_Main "HOL-Library.AList"
begin

section \<open>Python values\<close>

text \<open>
  A Python \<^verbatim>\<open>str\<close> is the list of its code points. \<open>code\<close> is the code point of a
  character written in this text and \<open>str\<close> the Python string of a literal.
\<close>

type_synonym pystr = "nat list"

definition code :: "char \<Rightarrow> nat" where
  "code c = of_char c"

definition str :: "char list \<Rightarrow> pystr" where
  "str literal = map code literal"

text \<open>
  The trees the module works on are what \<^verbatim>\<open>json.loads\<close> produces, plus whatever else a
  caller may hand in. \<open>PDict\<close> is a value whose type is exactly \<^verbatim>\<open>dict\<close>, given as the list
  of its items (keys are strings and, in a well-formed dict, distinct). \<open>POther\<close> stands
  for any object that is not an instance of the types of the other constructors (a tuple,
  a set, ...; not bytes, which \<^verbatim>\<open>json.loads\<close> accepts), identified by a number. Instances
  of subclasses of these types are not modelled. Python floats are modelled as reals:
  rounding is not modelled.
\<close>

datatype pyval =
    PNone
  | PBool bool
  | PInt int
  | PFloat real
  | PStr pystr
  | PList "pyval list"
  | PDict "(pystr \<times> pyval) list"
  | POther nat

text \<open>
  The exceptions that can travel through the module. \<^verbatim>\<open>JSONDecodeError\<close> carries its
  message. \<^verbatim>\<open>RecursionError\<close> and \<^verbatim>\<open>ValueError\<close> are what \<^verbatim>\<open>json.loads\<close> raises, apart from
  \<^verbatim>\<open>JSONDecodeError\<close>, on a text nested too deeply and on an integer literal with too many
  digits; in Python \<^verbatim>\<open>JSONDecodeError\<close> is a subclass of \<^verbatim>\<open>ValueError\<close>, and \<open>ValueError\<close>
  here is a \<^verbatim>\<open>ValueError\<close> that is not a \<^verbatim>\<open>JSONDecodeError\<close>.
\<close>

datatype error =
  JSONDecodeError pystr | RecursionError | ValueError | TypeError | ZeroDivisionError

text \<open>\<^verbatim>\<open>d.get(key)\<close>: the value stored under the key, \<^verbatim>\<open>None\<close> when the key is missing.\<close>

definition dict_get :: "(pystr \<times> pyval) list \<Rightarrow> pystr \<Rightarrow> pyval" where
  "dict_get d key = (case map_of d key of None \<Rightarrow> PNone | Some v \<Rightarrow> v)"

section \<open>The value counter\<close>

text \<open>
  \<^verbatim>\<open>count_total_values\<close>, lines 43-60: an \<^verbatim>\<open>if\<close>/\<^verbatim>\<open>elif\<close> chain on the type of the
  argument; the last branch is the fallback for any other type.
\<close>

fun count_total_values :: "pyval \<Rightarrow> nat" where
  "count_total_values PNone = 1"
| "count_total_values (PStr s) = 1"
| "count_total_values (PInt i) = 1"
| "count_total_values (PFloat f) = 1"
| "count_total_values (PBool b) = 1"
| "count_total_values (PList items) = sum_list (map count_total_values items)"
| "count_total_values (PDict d) = sum_list (map count_total_values (map snd d))"
| "count_total_values (POther obj) = 1"

section \<open>The result of the tree differ\<close>

text \<open>
  A \<^verbatim>\<open>DeepDiff\<close> result is a dict from report names to reports. Each field below is one
  report the scorer reads: \<open>None\<close> when the name is not a key of the result, otherwise the
  entries of the report. \<^verbatim>\<open>values_changed\<close> and \<^verbatim>\<open>type_changes\<close> map a path to the new and
  the old value; the two \<^verbatim>\<open>dictionary_item\<close> reports are sets of paths; the two
  \<^verbatim>\<open>iterable_item\<close> reports map a path to the item. \<open>other_reports\<close> are the names of any
  further keys of the result.
\<close>

record diff_result =
  values_changed :: "(pystr \<times> pyval \<times> pyval) list option"
  type_changes :: "(pystr \<times> pyval \<times> pyval) list option"
  dictionary_item_removed :: "pystr list option"
  iterable_item_removed :: "(pystr \<times> pyval) list option"
  dictionary_item_added :: "pystr list option"
  iterable_item_added :: "(pystr \<times> pyval) list option"
  other_reports :: "pystr list"

text \<open>The truth value of the result: a dict is false exactly when it has no key.\<close>

definition diff_truthy :: "diff_result \<Rightarrow> bool" where
  "diff_truthy diff =
     (\<not> (values_changed diff = None \<and> type_changes diff = None \<and>
         dictionary_item_removed diff = None \<and> iterable_item_removed diff = None \<and>
         dictionary_item_added diff = None \<and> iterable_item_added diff = None \<and>
         other_reports diff = []))"

definition empty_diff :: diff_result where
  "empty_diff =
     \<lparr>values_changed = None, type_changes = None, dictionary_item_removed = None,
      iterable_item_removed = None, dictionary_item_added = None,
      iterable_item_added = None, other_reports = []\<rparr>"

text \<open>\<^verbatim>\<open>diff.get(name, {})\<close> for a report that is a dict.\<close>

definition get_or_empty :: "'a list option \<Rightarrow> 'a list" where
  "get_or_empty report = (case report of None \<Rightarrow> [] | Some entries \<Rightarrow> entries)"

section \<open>The scorer\<close>

text \<open>
  \<^verbatim>\<open>calculate_similarity_score\<close>, lines 63-122. \<open>diff_count\<close> is built up statement by
  statement as in the source; each \<^verbatim>\<open>for\<close> loop is a \<open>fold\<close> over the entries of its
  report, and a report that is not in the result leaves the count as it is. The division
  is Python's true division of two integers.
\<close>

definition add_paths :: "pystr list option \<Rightarrow> nat \<Rightarrow> nat" where
  "add_paths report diff_count =
     (case report of
        None \<Rightarrow> diff_count
      | Some paths \<Rightarrow> fold (\<lambda>path c. c + 1) paths diff_count)"

definition add_items :: "(pystr \<times> pyval) list option \<Rightarrow> nat \<Rightarrow> nat" where
  "add_items report diff_count =
     (case report of
        None \<Rightarrow> diff_count
      | Some entries \<Rightarrow> fold (\<lambda>item c. c + count_total_values item) (map snd entries) diff_count)"

definition calculate_similarity_score :: "pyval \<Rightarrow> pyval \<Rightarrow> diff_result \<Rightarrow> real" where
  "calculate_similarity_score expected_data extracted_data diff =
     (if expected_data = PNone \<and> extracted_data = PNone then 1
      else if expected_data = PNone \<or> extracted_data = PNone then 0
      else if \<not> diff_truthy diff then 1
      else
        let total_expected_values = count_total_values expected_data;
            diff_count = 0;
            diff_count = diff_count + length (get_or_empty (values_changed diff));
            diff_count = diff_count + length (get_or_empty (type_changes diff));
            diff_count = add_paths (dictionary_item_removed diff) diff_count;
            diff_count = add_items (iterable_item_removed diff) diff_count;
            diff_count = add_paths (dictionary_item_added diff) diff_count;
            diff_count = add_items (iterable_item_added diff) diff_count
        in if total_expected_values = 0 then (if diff_count = 0 then 1 else 0)
           else max 0 (1 - real diff_count / real total_expected_values))"

section \<open>The library the module calls\<close>

text \<open>
  \<^verbatim>\<open>json.loads\<close>, \<^verbatim>\<open>json.dumps\<close> and \<^verbatim>\<open>DeepDiff\<close> are not part of the module; the functions
  below take them as a parameter.
  \<^item> \<open>json_loads s\<close> is \<^verbatim>\<open>json.loads\<close> on a string: \<open>Inr\<close> the tree, or \<open>Inl\<close> the
    exception it raises.
  \<^item> \<open>json_dumps indent v\<close> is \<^verbatim>\<open>json.dumps(v, indent=indent)\<close>: the text, or the exception
    raised for a value that cannot be serialised.
  \<^item> \<open>DeepDiff t1 t2 ignore_order\<close> is the differ.
\<close>

record pylib =
  json_loads :: "pystr \<Rightarrow> error + pyval"
  json_dumps :: "nat option \<Rightarrow> pyval \<Rightarrow> error + pystr"
  DeepDiff :: "pyval \<Rightarrow> pyval \<Rightarrow> bool \<Rightarrow> diff_result"

section \<open>Regular expression search\<close>

text \<open>
  The two patterns of the extractor use literals, an optional literal word, greedy and
  lazy repetition of a character class, and one capturing group. \<open>rx_match\<close> matches a
  pattern at the start of a text the way a backtracking matcher does: a greedy repetition
  tries the longest run first, a lazy one the shortest, an optional word is tried before
  it is skipped, and the first alternative for which the rest of the pattern matches wins.
  The result is the matched text with the offsets at which the group opens and closes.
\<close>

datatype cls = AnyChar | Space

text \<open>
  \<^verbatim>\<open>.\<close> under \<^verbatim>\<open>re.DOTALL\<close> matches every character; \<^verbatim>\<open>\s\<close> on a \<^verbatim>\<open>str\<close> matches the
  Unicode whitespace code points: 9-13, 28-32, 133, 160, 5760, 8192-8202, 8232, 8233,
  8239, 8287 and 12288.
\<close>

definition is_space :: "nat \<Rightarrow> bool" where
  "is_space c =
     (c \<in> {9, 10, 11, 12, 13, 28, 29, 30, 31, 32, 133, 160, 5760, 8232, 8233, 8239, 8287, 12288} \<or>
      (8192 \<le> c \<and> c \<le> 8202))"

fun in_cls :: "cls \<Rightarrow> nat \<Rightarrow> bool" where
  "in_cls AnyChar c = True"
| "in_cls Space c = is_space c"

datatype rx = Lit nat | OptWord pystr | Greedy cls | Lazy cls | GroupOpen | GroupClose

type_synonym rx_result = "pystr \<times> nat option \<times> nat option"

definition shift :: "pystr \<Rightarrow> rx_result \<Rightarrow> rx_result" where
  "shift pre m =
     (case m of (txt, go, gc) \<Rightarrow>
        (pre @ txt, map_option (\<lambda>k. length pre + k) go, map_option (\<lambda>k. length pre + k) gc))"

fun first_some :: "('a \<Rightarrow> 'b option) \<Rightarrow> 'a list \<Rightarrow> 'b option" where
  "first_some f [] = None"
| "first_some f (x # xs) = (case f x of Some y \<Rightarrow> Some y | None \<Rightarrow> first_some f xs)"

fun rx_match :: "rx list \<Rightarrow> pystr \<Rightarrow> rx_result option" where
  "rx_match [] s = Some ([], None, None)"
| "rx_match (Lit c # r) s =
     (case s of
        [] \<Rightarrow> None
      | d # t \<Rightarrow> if d = c then map_option (shift [d]) (rx_match r t) else None)"
| "rx_match (OptWord w # r) s =
     (if take (length w) s = w
      then (case rx_match r (drop (length w) s) of
              Some m \<Rightarrow> Some (shift w m)
            | None \<Rightarrow> rx_match r s)
      else rx_match r s)"
| "rx_match (Greedy c # r) s =
     first_some (\<lambda>n. map_option (shift (take n s)) (rx_match r (drop n s)))
       (rev [0 ..< Suc (length (takeWhile (in_cls c) s))])"
| "rx_match (Lazy c # r) s =
     first_some (\<lambda>n. map_option (shift (take n s)) (rx_match r (drop n s)))
       [0 ..< Suc (length (takeWhile (in_cls c) s))]"
| "rx_match (GroupOpen # r) s =
     map_option (\<lambda>(txt, go, gc). (txt, Some 0, gc)) (rx_match r s)"
| "rx_match (GroupClose # r) s =
     map_option (\<lambda>(txt, go, gc). (txt, go, Some 0)) (rx_match r s)"

text \<open>\<^verbatim>\<open>re.search\<close>: the match at the leftmost position where the pattern matches.\<close>

fun re_search :: "rx list \<Rightarrow> pystr \<Rightarrow> rx_result option" where
  "re_search p [] = rx_match p []"
| "re_search p (c # s) =
     (case rx_match p (c # s) of Some m \<Rightarrow> Some m | None \<Rightarrow> re_search p s)"

text \<open>\<^verbatim>\<open>m.group()\<close> is the whole match, \<^verbatim>\<open>m.group(1)\<close> the text of the group.\<close>

definition group0 :: "rx_result \<Rightarrow> pystr" where
  "group0 m = fst m"

definition group1 :: "rx_result \<Rightarrow> pystr" where
  "group1 m =
     (case m of (txt, go, gc) \<Rightarrow>
        (case (go, gc) of
           (Some i, Some j) \<Rightarrow> take (j - i) (drop i txt)
         | _ \<Rightarrow> []))"

text \<open>The pattern of line 25: an opening brace, anything (greedy), a closing brace.\<close>

definition brace_rx :: "rx list" where
  "brace_rx = [Lit (code (CHR ''{'')), Greedy AnyChar, Lit (code (CHR ''}''))]"

text \<open>
  The pattern of line 33: three backticks, an optional \<^verbatim>\<open>json\<close>, whitespace, the group (an
  opening brace, anything (lazy), a closing brace), whitespace, three backticks.
\<close>

definition fence_rx :: "rx list" where
  "fence_rx =
     [Lit (code (CHR ''`'')), Lit (code (CHR ''`'')), Lit (code (CHR ''`'')),
      OptWord (str ''json''), Greedy Space,
      GroupOpen, Lit (code (CHR ''{'')), Lazy AnyChar, Lit (code (CHR ''}'')), GroupClose,
      Greedy Space, Lit (code (CHR ''`'')), Lit (code (CHR ''`'')), Lit (code (CHR ''`''))]"

text \<open>
  One alternative of the greedy repetition of \<open>brace_rx\<close>: the repetition takes \<open>n\<close>
  characters and the closing brace has to follow.
\<close>

definition close_at :: "pystr \<Rightarrow> nat \<Rightarrow> rx_result option" where
  "close_at t n = map_option (shift (take n t)) (rx_match [Lit (code (CHR ''}''))] (drop n t))"

section \<open>The extractor\<close>

text \<open>
  \<^verbatim>\<open>try: return json.loads(s) except json.JSONDecodeError: pass\<close>: \<open>Inr (Some v)\<close> when
  \<open>v\<close> is returned, \<open>Inr None\<close> when \<^verbatim>\<open>JSONDecodeError\<close> is caught and control passes on,
  \<open>Inl\<close> any other exception of \<^verbatim>\<open>json.loads\<close>, which the handler does not catch.
\<close>

definition try_loads :: "pylib \<Rightarrow> pystr \<Rightarrow> error + pyval option" where
  "try_loads lib s =
     (case json_loads lib s of
        Inr v \<Rightarrow> Inr (Some v)
      | Inl (JSONDecodeError msg) \<Rightarrow> Inr None
      | Inl err \<Rightarrow> Inl err)"

text \<open>
  \<^verbatim>\<open>parse_json_from_response\<close>, lines 9-40. A value whose type is \<^verbatim>\<open>dict\<close> is returned as
  it is. Every other argument goes to \<^verbatim>\<open>json.loads\<close>, which raises \<^verbatim>\<open>TypeError\<close> for an
  argument that is not a string (bytes are not modelled); that exception is not caught.
  The value returned when every attempt has failed is Python's \<^verbatim>\<open>None\<close>, which is also
  what \<^verbatim>\<open>json.loads\<close> returns for the text \<^verbatim>\<open>null\<close>.
\<close>

definition parse_json_from_response :: "pylib \<Rightarrow> pyval \<Rightarrow> error + pyval" where
  "parse_json_from_response lib response =
     (case response of
        PDict d \<Rightarrow> Inr (PDict d)
      | PStr s \<Rightarrow>
          (case try_loads lib s of
             Inl err \<Rightarrow> Inl err
           | Inr (Some v) \<Rightarrow> Inr v
           | Inr None \<Rightarrow>
               (case (case re_search brace_rx s of
                        Some json_match \<Rightarrow> try_loads lib (group0 json_match)
                      | None \<Rightarrow> Inr None) of
                  Inl err \<Rightarrow> Inl err
                | Inr (Some v) \<Rightarrow> Inr v
                | Inr None \<Rightarrow>
                    (case (case re_search fence_rx s of
                             Some code_block_match \<Rightarrow> try_loads lib (group1 code_block_match)
                           | None \<Rightarrow> Inr None) of
                       Inl err \<Rightarrow> Inl err
                     | Inr (Some v) \<Rightarrow> Inr v
                     | Inr None \<Rightarrow> Inr PNone)))
      | _ \<Rightarrow> Inl TypeError)"

section \<open>Field-level scores\<close>

text \<open>
  \<^verbatim>\<open>calculate_field_level_scores\<close>, lines 125-153. \<open>all_keys\<close> is a Python set; the model
  walks it in one fixed order. \<open>key_scores\<close> is the dict being filled, as the list of its
  items; \<^verbatim>\<open>key_scores[key] = key_score\<close> is \<open>AList.update\<close>.
\<close>

definition calculate_field_level_scores :: "pylib \<Rightarrow> pyval \<Rightarrow> pyval \<Rightarrow> (pystr \<times> real) list" where
  "calculate_field_level_scores lib expected_data extracted_data =
     (case (expected_data, extracted_data) of
        (PDict e, PDict x) \<Rightarrow>
          let key_scores = [];
              all_keys = remdups (map fst e @ map fst x)
          in fold (\<lambda>key key_scores.
                     let expected_value = dict_get e key;
                         extracted_value = dict_get x key;
                         key_diff = DeepDiff lib expected_value extracted_value True;
                         key_score = calculate_similarity_score expected_value extracted_value key_diff
                     in AList.update key key_score key_scores)
               all_keys key_scores
      | _ \<Rightarrow> [])"

section \<open>The metric\<close>

text \<open>
  \<^verbatim>\<open>output_true[:500]\<close>: the first 500 elements of a string or a list; other values cannot
  be sliced.
\<close>

definition slice_500 :: "pyval \<Rightarrow> error + pyval" where
  "slice_500 v =
     (case v of
        PStr s \<Rightarrow> Inr (PStr (take 500 s))
      | PList xs \<Rightarrow> Inr (PList (take 500 xs))
      | _ \<Rightarrow> Inl TypeError)"

text \<open>\<^verbatim>\<open>json.dumps(obs, indent=...)\<close> followed by the \<^verbatim>\<open>return\<close> of the triple.\<close>

definition return_observation ::
    "pylib \<Rightarrow> real \<Rightarrow> nat option \<Rightarrow> pyval \<Rightarrow> pyval \<Rightarrow> error + (real \<times> pystr \<times> pyval)" where
  "return_observation lib score indent observation output =
     (case json_dumps lib indent observation of
        Inl err \<Rightarrow> Inl err
      | Inr txt \<Rightarrow> Inr (score, txt, output))"

text \<open>The three observation dicts the metric builds.\<close>

definition ground_truth_error :: "pystr \<Rightarrow> pyval \<Rightarrow> pyval" where
  "ground_truth_error e truncated =
     PDict [(str ''error'', PStr (str ''Failed to parse ground truth JSON: '' @ e)),
            (str ''output_true'', truncated)]"

definition extraction_failure :: "pyval \<Rightarrow> pyval" where
  "extraction_failure expected_data =
     PDict [(str ''score'', PFloat 0),
            (str ''error'', PStr (str ''Failed to extract valid JSON from LLM response'')),
            (str ''expected_data'', expected_data)]"

definition scored_observation :: "real \<Rightarrow> pyval \<Rightarrow> pyval \<Rightarrow> (pystr \<times> real) list \<Rightarrow> pyval" where
  "scored_observation overall_score extracted_data expected_data field_scores =
     PDict [(str ''score'', PFloat overall_score),
            (str ''extracted_data'', extracted_data),
            (str ''expected_data'', expected_data),
            (str ''field_scores'', PDict (map (\<lambda>(key, key_score). (key, PFloat key_score)) field_scores))]"

text \<open>
  \<^verbatim>\<open>llm_structured_output_metric\<close>, lines 162-202; the registration of lines 156-161 is
  taken to leave the function as it is, and the keyword arguments are not used. The
  handler of the first \<^verbatim>\<open>try\<close> catches \<^verbatim>\<open>JSONDecodeError\<close> only; the second call of the
  extractor is outside any \<^verbatim>\<open>try\<close>. The whole-tree diff of line 184 is computed and not
  used. The division of line 186 raises \<^verbatim>\<open>ZeroDivisionError\<close> when \<open>field_scores\<close> is
  empty. The result is \<open>Inr\<close> the triple returned, or \<open>Inl\<close> the exception that leaves the
  function.
\<close>

definition llm_structured_output_metric ::
    "pylib \<Rightarrow> pyval \<Rightarrow> pyval \<Rightarrow> error + (real \<times> pystr \<times> pyval)" where
  "llm_structured_output_metric lib output output_true =
     (case parse_json_from_response lib output_true of
        Inl (JSONDecodeError e) \<Rightarrow>
          (case slice_500 output_true of
             Inl err \<Rightarrow> Inl err
           | Inr truncated \<Rightarrow>
               return_observation lib 0 None (ground_truth_error e truncated) output)
      | Inl err \<Rightarrow> Inl err
      | Inr expected_data \<Rightarrow>
          (case parse_json_from_response lib output of
             Inl err \<Rightarrow> Inl err
           | Inr extracted_data \<Rightarrow>
               if extracted_data = PNone
               then return_observation lib 0 (Some 2) (extraction_failure expected_data) output
               else
                 let diff = DeepDiff lib expected_data extracted_data False;
                     field_scores = calculate_field_level_scores lib expected_data extracted_data
                 in if length field_scores = 0 then Inl ZeroDivisionError
                    else
                      let overall_score =
                            sum_list (map snd field_scores) / real (length field_scores)
                      in return_observation lib overall_score (Some 2)
                           (scored_observation overall_score extracted_data expected_data
                              field_scores)
                           output))"

section \<open>The scorer as the specification describes it\<close>

text \<open>
  The reference definition of the similarity score, written from the specification's
  words and not from the code: a report that is absent has zero occurrences; the penalty
  count is the sum of the number of \<^verbatim>\<open>values_changed\<close> entries, the number of
  \<^verbatim>\<open>type_changes\<close> entries, one for each removed and each added dictionary item, and the
  value count of each removed and each added iterable item; the denominator is the value
  count of the expected side.
\<close>

definition spec_occurrences :: "'a list option \<Rightarrow> 'a list" where
  "spec_occurrences report = (case report of None \<Rightarrow> [] | Some entries \<Rightarrow> entries)"

definition spec_diff_count :: "diff_result \<Rightarrow> nat" where
  "spec_diff_count diff =
     length (spec_occurrences (values_changed diff)) +
     length (spec_occurrences (type_changes diff)) +
     length (spec_occurrences (dictionary_item_removed diff)) +
     (\<Sum>(path, item) \<leftarrow> spec_occurrences (iterable_item_removed diff). count_total_values item) +
     length (spec_occurrences (dictionary_item_added diff)) +
     (\<Sum>(path, item) \<leftarrow> spec_occurrences (iterable_item_added diff). count_total_values item)"

definition spec_similarity_score :: "pyval \<Rightarrow> pyval \<Rightarrow> diff_result \<Rightarrow> real" where
  "spec_similarity_score expected extracted diff =
     (if expected = PNone \<and> extracted = PNone then 1
      else if (expected = PNone) \<noteq> (extracted = PNone) then 0
      else if diff = empty_diff then 1
      else if count_total_values expected = 0
           then (if spec_diff_count diff = 0 then 1 else 0)
           else max 0 (1 - real (spec_diff_count diff) / real (count_total_values expected)))"

section \<open>Library instances for concrete runs\<close>

text \<open>
  To run the functions on concrete inputs the library parameter is instantiated:
  \<open>table_loads\<close> parses exactly the texts of its table and rejects every other text with
  \<^verbatim>\<open>JSONDecodeError\<close>; \<open>leaf_diff\<close> reports nothing for equal values and one changed value
  at the root otherwise, which is what the differ reports for two leaves of the same
  type; \<open>plain_dumps\<close> serialises every value to the same text.
\<close>

definition table_loads :: "(pystr \<times> pyval) list \<Rightarrow> pystr \<Rightarrow> error + pyval" where
  "table_loads table s =
     (case map_of table s of
        Some v \<Rightarrow> Inr v
      | None \<Rightarrow> Inl (JSONDecodeError (str ''Expecting value'')))"

definition leaf_diff :: "pyval \<Rightarrow> pyval \<Rightarrow> bool \<Rightarrow> diff_result" where
  "leaf_diff t1 t2 ignore_order =
     (if t1 = t2 then empty_diff
      else empty_diff\<lparr>values_changed := Some [(str ''root'', t2, t1)]\<rparr>)"

definition plain_dumps :: "nat option \<Rightarrow> pyval \<Rightarrow> error + pystr" where
  "plain_dumps indent v = Inr (str ''{...}'')"

definition sample_table :: "(pystr \<times> pyval) list" where
  \<open>sample_table =
     [(str ''{"name":"Alice","age":30}'',
         PDict [(str ''name'', PStr (str ''Alice'')), (str ''age'', PInt 30)]),
      (str ''{"name":"Alice","age":31}'',
         PDict [(str ''name'', PStr (str ''Alice'')), (str ''age'', PInt 31)]),
      (str ''{"x":1}'', PDict [(str ''x'', PInt 1)]),
      (str ''{}'', PDict []),
      (str ''[1]'', PList [PInt 1])]\<close>

definition sample_lib :: pylib where
  "sample_lib =
     \<lparr>json_loads = table_loads sample_table, json_dumps = plain_dumps, DeepDiff = leaf_diff\<rparr>"

text \<open>
  \<^verbatim>\<open>json.loads\<close> gives up on a text that is nested too deeply: on one thousand opening
  brackets it raises \<^verbatim>\<open>RecursionError\<close>. \<open>deep_lib\<close> is the sample library with that
  behaviour added.
\<close>

definition deep_text :: pystr where
  "deep_text = replicate 1000 (code (CHR ''[''))"

definition deep_lib :: pylib where
  "deep_lib =
     sample_lib\<lparr>json_loads :=
       (\<lambda>s. if s = deep_text then Inl RecursionError else table_loads sample_table s)\<rparr>"

section \<open>The value counter and the similarity score\<close>

lemma sum_items_eq:
  "(\<Sum>(path, item) \<leftarrow> entries. count_total_values item) =
     sum_list (map count_total_values (map snd entries))"
  by (induction entries) auto

text \<open>
  Claim C4: \<^verbatim>\<open>count_total_values\<close> is 1 on every leaf (\<^verbatim>\<open>None\<close>, a boolean, a number, a
  string, an object of any other type), the sum of the counts of the elements on a list
  (0 on the empty list), and the sum of the counts of the values on a dict, the keys not
  counted (0 on the empty dict).
\<close>

theorem count_total_values_leaves_and_sums:
  "count_total_values PNone = 1 \<and>
   count_total_values (PBool b) = 1 \<and>
   count_total_values (PInt i) = 1 \<and>
   count_total_values (PFloat f) = 1 \<and>
   count_total_values (PStr s) = 1 \<and>
   count_total_values (POther obj) = 1 \<and>
   count_total_values (PList items) = (\<Sum>item \<leftarrow> items. count_total_values item) \<and>
   count_total_values (PList []) = 0 \<and>
   count_total_values (PDict d) = (\<Sum>(key, v) \<leftarrow> d. count_total_values v) \<and>
   count_total_values (PDict []) = 0"
  by (simp add: sum_items_eq)

lemma fold_Suc_paths: "fold (\<lambda>path. Suc) paths n = n + length paths"
  by (induction paths arbitrary: n) auto

lemma fold_count_items:
  "fold (\<lambda>item c. c + count_total_values item) items n =
     n + sum_list (map count_total_values items)"
  by (induction items arbitrary: n) auto

lemma add_paths_eq: "add_paths report n = n + length (spec_occurrences report)"
  by (cases report) (simp_all add: add_paths_def spec_occurrences_def fold_Suc_paths)

lemma add_items_eq:
  "add_items report n =
     n + (\<Sum>(path, item) \<leftarrow> spec_occurrences report. count_total_values item)"
  by (cases report) (simp_all add: add_items_def spec_occurrences_def fold_count_items sum_items_eq)

lemma diff_truthy_iff: "diff_truthy diff \<longleftrightarrow> diff \<noteq> empty_diff"
  by (cases diff) (auto simp: diff_truthy_def empty_diff_def)

lemma source_diff_count:
  "add_items (iterable_item_added diff)
     (add_paths (dictionary_item_added diff)
        (add_items (iterable_item_removed diff)
           (add_paths (dictionary_item_removed diff)
              (0 + length (get_or_empty (values_changed diff)) +
               length (get_or_empty (type_changes diff)))))) = spec_diff_count diff"
  by (simp add: add_items_eq add_paths_eq spec_diff_count_def get_or_empty_def
      spec_occurrences_def)

text \<open>
  Claim C1: \<^verbatim>\<open>calculate_similarity_score\<close> conforms to the reference definition of the
  specification. For every expected value, extracted value and diff the function of the
  source returns what \<open>spec_similarity_score\<close> prescribes: 1 when both sides are
  \<^verbatim>\<open>None\<close>, 0 when exactly one is, 1 when the diff is empty, and otherwise the penalty
  count over the value count of the expected side taken from 1 and cut off at 0, with the
  value count 0 giving 1 for a penalty count of 0 and 0 otherwise.
\<close>

theorem calculate_similarity_score_conforms:
  "calculate_similarity_score expected extracted diff =
     spec_similarity_score expected extracted diff"
  unfolding calculate_similarity_score_def spec_similarity_score_def Let_def
    source_diff_count diff_truthy_iff
  by auto

lemma calculate_similarity_score_range:
  "0 \<le> calculate_similarity_score expected extracted diff \<and>
   calculate_similarity_score expected extracted diff \<le> 1"
  by (simp add: calculate_similarity_score_def Let_def)

section \<open>What the extractor returns\<close>

text \<open>Unfolding sets for running the functions on the sample library.\<close>

lemmas sample_defs =
  sample_lib_def sample_table_def table_loads_def leaf_diff_def plain_dumps_def empty_diff_def
  str_def code_def

lemmas run_defs =
  parse_json_from_response_def try_loads_def
  calculate_field_level_scores_def calculate_similarity_score_def
  dict_get_def diff_truthy_def get_or_empty_def add_paths_def add_items_def
  scored_observation_def extraction_failure_def Let_def

lemma first_some_cong:
  "\<forall>x \<in> set xs. f x = g x \<Longrightarrow> first_some f xs = first_some g xs"
  by (induction xs) (simp_all split: option.splits)

lemma first_some_None: "\<forall>x \<in> set xs. f x = None \<Longrightarrow> first_some f xs = None"
  by (induction xs) (simp_all split: option.splits)

lemma takeWhile_AnyChar: "takeWhile (in_cls AnyChar) t = t"
  by (induction t) simp_all

lemma close_at_end: "length t \<le> n \<Longrightarrow> close_at t n = None"
  by (simp add: close_at_def)

lemma close_at_snoc_less: "n < length t \<Longrightarrow> close_at (t @ [c]) n = close_at t n"
  by (cases "drop n t") (auto simp: close_at_def)

lemma close_at_snoc_last:
  "close_at (t @ [c]) (length t) = (if c = code (CHR ''}'') then Some (t @ [c], None, None) else None)"
  by (simp add: close_at_def shift_def)

lemma greedy_close_unfold:
  "rx_match [Greedy AnyChar, Lit (code (CHR ''}''))] t = first_some (close_at t) (rev [0 ..< Suc (length t)])"
  unfolding rx_match.simps(4) takeWhile_AnyChar close_at_def ..

lemma greedy_close_snoc:
  "rx_match [Greedy AnyChar, Lit (code (CHR ''}''))] (t @ [c]) =
     (if c = code (CHR ''}'') then Some (t @ [c], None, None)
      else rx_match [Greedy AnyChar, Lit (code (CHR ''}''))] t)"
proof -
  have "first_some (close_at (t @ [c])) (rev [0 ..< length t]) =
      first_some (close_at t) (rev [0 ..< length t])"
    by (rule first_some_cong) (simp add: close_at_snoc_less)
  then show ?thesis
    unfolding greedy_close_unfold
    by (simp add: close_at_end close_at_snoc_last)
qed

lemma greedy_close_last:
  "rx_match [Greedy AnyChar, Lit (code (CHR ''}''))] t =
     (if code (CHR ''}'') \<in> set t
      then Some (rev (dropWhile (\<lambda>c. c \<noteq> code (CHR ''}'')) (rev t)), None, None)
      else None)"
proof (induction t rule: rev_induct)
  case Nil
  show ?case by (simp add: first_some_None)
next
  case (snoc c t)
  then show ?case by (simp add: greedy_close_snoc del: rx_match.simps)
qed

lemma brace_match_here:
  "rx_match brace_rx (c # t) =
     (if c = code (CHR ''{'') \<and> code (CHR ''}'') \<in> set t
      then Some (c # rev (dropWhile (\<lambda>c. c \<noteq> code (CHR ''}'')) (rev t)), None, None)
      else None)"
proof -
  have "rx_match brace_rx (c # t) =
      (if c = code (CHR ''{'') then map_option (shift [c]) (rx_match [Greedy AnyChar, Lit (code (CHR ''}''))] t)
       else None)"
    by (simp add: brace_rx_def)
  then show ?thesis by (simp add: greedy_close_last shift_def del: rx_match.simps)
qed

lemma brace_match_empty: "rx_match brace_rx [] = None"
  by (simp add: brace_rx_def)

lemma brace_search_first_to_last:
  "re_search brace_rx s =
     (case dropWhile (\<lambda>c. c \<noteq> code (CHR ''{'')) s of
        [] \<Rightarrow> None
      | b # t \<Rightarrow>
          if code (CHR ''}'') \<in> set t
          then Some (b # rev (dropWhile (\<lambda>c. c \<noteq> code (CHR ''}'')) (rev t)), None, None)
          else None)"
proof (induction s)
  case Nil
  show ?case by (simp add: brace_match_empty)
next
  case (Cons c s)
  note IH = Cons.IH
  show ?case
  proof (cases "c = code (CHR ''{'') \<and> code (CHR ''}'') \<in> set s")
    case True
    then show ?thesis by (simp add: brace_match_here)
  next
    case False
    note outer = False
    show ?thesis
    proof (cases "c = code (CHR ''{'')")
      case True
      with outer have none: "code (CHR ''}'') \<notin> set s" by simp
      have "re_search brace_rx s = None"
      proof (cases "dropWhile (\<lambda>c. c \<noteq> code (CHR ''{'')) s")
        case Nil
        show ?thesis unfolding IH Nil by simp
      next
        case (Cons b t)
        then have "set t \<subseteq> set s"
          by (metis set_dropWhileD set_subset_Cons subsetD subsetI)
        with none have "code (CHR ''}'') \<notin> set t" by blast
        then show ?thesis unfolding IH Cons by simp
      qed
      with True none show ?thesis by (simp add: brace_match_here)
    next
      case False
      then show ?thesis by (simp add: brace_match_here IH)
    qed
  qed
qed

lemma brace_search_no_open: "code (CHR ''{'') \<notin> set s \<Longrightarrow> re_search brace_rx s = None"
proof -
  assume "code (CHR ''{'') \<notin> set s"
  then have none: "dropWhile (\<lambda>c. c \<noteq> code (CHR ''{'')) s = []" by auto
  show ?thesis unfolding brace_search_first_to_last none by simp
qed

lemma fence_search_no_backtick: "code (CHR ''`'') \<notin> set s \<Longrightarrow> re_search fence_rx s = None"
  by (induction s) (auto simp: fence_rx_def)

lemma try_loads_no_decode_error: "try_loads lib s \<noteq> Inl (JSONDecodeError e)"
  by (simp add: try_loads_def split: sum.splits error.splits)

lemma parse_no_decode_error: "parse_json_from_response lib v \<noteq> Inl (JSONDecodeError e)"
proof (cases v)
  case (PStr s)
  show ?thesis
    unfolding PStr parse_json_from_response_def
    using try_loads_no_decode_error [of lib _ e]
    by (auto split: sum.splits option.splits)
qed (simp_all add: parse_json_from_response_def)

lemma try_loads_value: "json_loads lib s = Inr v \<Longrightarrow> try_loads lib s = Inr (Some v)"
  by (simp add: try_loads_def)

lemma try_loads_pass: "json_loads lib s = Inl (JSONDecodeError msg) \<Longrightarrow> try_loads lib s = Inr None"
  by (simp add: try_loads_def)

lemma try_loads_raise:
  "json_loads lib s = Inl err \<Longrightarrow> \<forall>msg. err \<noteq> JSONDecodeError msg \<Longrightarrow> try_loads lib s = Inl err"
  by (cases err) (simp_all add: try_loads_def)

lemma try_loads_Inl:
  "try_loads lib s = Inl err \<Longrightarrow> json_loads lib s = Inl err \<and> (\<forall>msg. err \<noteq> JSONDecodeError msg)"
  by (auto simp: try_loads_def split: sum.splits error.splits)

lemma parse_loads: "json_loads lib s = Inr v \<Longrightarrow> parse_json_from_response lib (PStr s) = Inr v"
  by (simp add: parse_json_from_response_def try_loads_value)

lemma parse_nothing_found:
  assumes "json_loads lib s = Inl (JSONDecodeError msg)"
    "code (CHR ''{'') \<notin> set s" "code (CHR ''`'') \<notin> set s"
  shows "parse_json_from_response lib (PStr s) = Inr PNone"
  using assms
  by (simp add: parse_json_from_response_def try_loads_pass brace_search_no_open
      fence_search_no_backtick)

lemma first_some_Some: "first_some f xs = Some y \<Longrightarrow> \<exists>x \<in> set xs. f x = Some y"
  by (induction xs) (auto split: option.splits)

lemma match_Lit:
  "rx_match (Lit c # r) s = Some m \<Longrightarrow> \<exists>t m'. s = c # t \<and> rx_match r t = Some m' \<and> m = shift [c] m'"
  by (cases s) (auto split: if_splits)

lemma match_OptWord:
  "rx_match (OptWord w # r) s = Some m \<Longrightarrow>
   \<exists>pre t m'. (pre = [] \<or> pre = w) \<and> s = pre @ t \<and> rx_match r t = Some m' \<and> m = shift pre m'"
proof -
  assume a: "rx_match (OptWord w # r) s = Some m"
  have skip: "m = shift [] m" by (cases m) (simp add: shift_def option.map_ident)
  show ?thesis
  proof (cases "take (length w) s = w \<and> rx_match r (drop (length w) s) \<noteq> None")
    case True
    then obtain m' where m': "rx_match r (drop (length w) s) = Some m'" by auto
    with True a have "m = shift w m'" by simp
    moreover have "s = w @ drop (length w) s" using True by (metis append_take_drop_id)
    ultimately show ?thesis using m' by blast
  next
    case False
    with a have "rx_match r s = Some m" by (auto split: if_splits option.splits)
    with skip show ?thesis by (metis append_Nil)
  qed
qed

lemma take_run:
  "n \<le> length (takeWhile P s) \<Longrightarrow> \<forall>x \<in> set (take n s). P x"
proof -
  assume "n \<le> length (takeWhile P s)"
  then have "take n s = take n (takeWhile P s)"
    by (metis takeWhile_dropWhile_id take_append diff_is_0_eq' take_0 append_Nil2)
  then show ?thesis by (metis in_set_takeD set_takeWhileD)
qed

lemma match_Greedy:
  "rx_match (Greedy c # r) s = Some m \<Longrightarrow>
   \<exists>pre t m'. s = pre @ t \<and> (\<forall>x \<in> set pre. in_cls c x) \<and> rx_match r t = Some m' \<and>
     m = shift pre m'"
proof -
  assume "rx_match (Greedy c # r) s = Some m"
  then have "first_some (\<lambda>n. map_option (shift (take n s)) (rx_match r (drop n s)))
      (rev [0 ..< Suc (length (takeWhile (in_cls c) s))]) = Some m"
    by (simp only: rx_match.simps)
  from first_some_Some [OF this] obtain n
    where "n \<in> set (rev [0 ..< Suc (length (takeWhile (in_cls c) s))])"
      and m: "map_option (shift (take n s)) (rx_match r (drop n s)) = Some m"
    by blast
  then have n: "n \<le> length (takeWhile (in_cls c) s)" by auto
  from m obtain m' where "rx_match r (drop n s) = Some m'" "m = shift (take n s) m'" by auto
  moreover have "s = take n s @ drop n s" by simp
  ultimately show ?thesis using take_run [OF n] by blast
qed

lemma match_Lazy:
  "rx_match (Lazy c # r) s = Some m \<Longrightarrow>
   \<exists>pre t m'. s = pre @ t \<and> (\<forall>x \<in> set pre. in_cls c x) \<and> rx_match r t = Some m' \<and>
     m = shift pre m'"
proof -
  assume "rx_match (Lazy c # r) s = Some m"
  then have "first_some (\<lambda>n. map_option (shift (take n s)) (rx_match r (drop n s)))
      [0 ..< Suc (length (takeWhile (in_cls c) s))] = Some m"
    by (simp only: rx_match.simps)
  from first_some_Some [OF this] obtain n
    where "n \<in> set [0 ..< Suc (length (takeWhile (in_cls c) s))]"
      and m: "map_option (shift (take n s)) (rx_match r (drop n s)) = Some m"
    by blast
  then have n: "n \<le> length (takeWhile (in_cls c) s)" by auto
  from m obtain m' where "rx_match r (drop n s) = Some m'" "m = shift (take n s) m'" by auto
  moreover have "s = take n s @ drop n s" by simp
  ultimately show ?thesis using take_run [OF n] by blast
qed

lemma match_GroupOpen:
  "rx_match (GroupOpen # r) s = Some m \<Longrightarrow>
   \<exists>txt go gc. rx_match r s = Some (txt, go, gc) \<and> m = (txt, Some 0, gc)"
  by auto

lemma match_GroupClose:
  "rx_match (GroupClose # r) s = Some m \<Longrightarrow>
   \<exists>txt go gc. rx_match r s = Some (txt, go, gc) \<and> m = (txt, go, Some 0)"
  by auto

lemma match_end: "rx_match [] s = Some m \<Longrightarrow> m = ([], None, None)"
  by simp

lemma search_suffix:
  "re_search p s = Some m \<Longrightarrow> \<exists>pre t. s = pre @ t \<and> rx_match p t = Some m"
proof (induction s)
  case Nil
  then show ?case by simp
next
  case (Cons c s)
  show ?case
  proof (cases "rx_match p (c # s)")
    case None
    with Cons.prems have "re_search p s = Some m" by simp
    then obtain pre t where "s = pre @ t" "rx_match p t = Some m" using Cons.IH by blast
    then have "c # s = (c # pre) @ t" by simp
    then show ?thesis using \<open>rx_match p t = Some m\<close> by blast
  next
    case (Some m')
    with Cons.prems have "rx_match p (c # s) = Some m" by simp
    then show ?thesis by (metis append_Nil)
  qed
qed

lemma fence_match_shape:
  "rx_match fence_rx s = Some m \<Longrightarrow>
   \<exists>tag ws1 body ws2 post.
     s = code (CHR ''`'') # code (CHR ''`'') # code (CHR ''`'') # tag @ ws1 @ code (CHR ''{'') # body @
         code (CHR ''}'') # ws2 @ code (CHR ''`'') # code (CHR ''`'') # code (CHR ''`'') # post \<and>
     (tag = [] \<or> tag = str ''json'') \<and>
     (\<forall>c \<in> set ws1. is_space c) \<and> (\<forall>c \<in> set ws2. is_space c) \<and>
     group1 m = code (CHR ''{'') # body @ [code (CHR ''}'')]"
  unfolding fence_rx_def
  apply (drule match_Lit, clarify)
  apply (drule match_Lit, clarify)
  apply (drule match_Lit, clarify)
  apply (drule match_OptWord, clarify)
  apply (drule match_Greedy, clarify)
  apply (drule match_GroupOpen, clarify)
  apply (drule match_Lit, clarify)
  apply (drule match_Lazy, clarify)
  apply (drule match_Lit, clarify)
  apply (drule match_GroupClose, clarify)
  apply (drule match_Greedy, clarify)
  apply (drule match_Lit, clarify)
  apply (drule match_Lit, clarify)
  apply (drule match_Lit, clarify)
  apply (drule match_end)
  apply (intro exI conjI)
      apply (rule refl)
     apply blast
    apply simp
   apply simp
  apply (simp add: shift_def group1_def)
  done

lemma fence_search_shape:
  "re_search fence_rx s = Some m \<Longrightarrow>
   \<exists>pre tag ws1 body ws2 post.
     s = pre @ (str ''```'') @ tag @ ws1 @ group1 m @ ws2 @ (str ''```'') @ post \<and>
     (tag = [] \<or> tag = str ''json'') \<and>
     (\<forall>c \<in> set ws1. is_space c) \<and> (\<forall>c \<in> set ws2. is_space c) \<and>
     group1 m = code (CHR ''{'') # body @ (str ''}'')"
proof -
  assume "re_search fence_rx s = Some m"
  then obtain pre t where s: "s = pre @ t" and t: "rx_match fence_rx t = Some m"
    using search_suffix by blast
  from fence_match_shape [OF t] obtain tag ws1 body ws2 post
    where "t = code (CHR ''`'') # code (CHR ''`'') # code (CHR ''`'') # tag @ ws1 @ code (CHR ''{'') # body @
         code (CHR ''}'') # ws2 @ code (CHR ''`'') # code (CHR ''`'') # code (CHR ''`'') # post"
      and "tag = [] \<or> tag = str ''json''"
      and "\<forall>c \<in> set ws1. is_space c" and "\<forall>c \<in> set ws2. is_space c"
      and "group1 m = code (CHR ''{'') # body @ [code (CHR ''}'')]"
    by blast
  with s have "s = pre @ (str ''```'') @ tag @ ws1 @ group1 m @ ws2 @ (str ''```'') @ post \<and>
     (tag = [] \<or> tag = str ''json'') \<and>
     (\<forall>c \<in> set ws1. is_space c) \<and> (\<forall>c \<in> set ws2. is_space c) \<and>
     group1 m = code (CHR ''{'') # body @ (str ''}'')"
    by (simp add: str_def)
  then show ?thesis by blast
qed

lemma sample_searches:
  \<open>map_option group0 (re_search brace_rx (str ''Answer: {"x":1}'')) = Some (str ''{"x":1}'')\<close>
  \<open>map_option group0 (re_search brace_rx (str ''```json {} ``` }'')) = Some (str ''{} ``` }'')\<close>
  \<open>map_option group1 (re_search fence_rx (str ''```json {} ``` }'')) = Some (str ''{}'')\<close>
  by (simp_all add: brace_rx_def fence_rx_def group0_def group1_def shift_def is_space_def
      str_def code_def)

lemma sample_loads:
  \<open>json_loads sample_lib (str ''{"x":1}'') = Inr (PDict [(str ''x'', PInt 1)])\<close>
  \<open>json_loads sample_lib (str ''Answer: {"x":1}'') =
     Inl (JSONDecodeError (str ''Expecting value''))\<close>
  \<open>json_loads sample_lib (str ''```json {} ``` }'') =
     Inl (JSONDecodeError (str ''Expecting value''))\<close>
  \<open>json_loads sample_lib (str ''{} ``` }'') = Inl (JSONDecodeError (str ''Expecting value''))\<close>
  \<open>json_loads sample_lib (str ''{}'') = Inr (PDict [])\<close>
  \<open>json_loads sample_lib (str ''not json at all'') =
     Inl (JSONDecodeError (str ''Expecting value''))\<close>
  \<open>json_loads sample_lib (str ''not json'') = Inl (JSONDecodeError (str ''Expecting value''))\<close>
  by (simp_all add: sample_defs)

lemma sample_no_marks:
  "code (CHR ''{'') \<notin> set (str ''not json at all'')"
  "code (CHR ''`'') \<notin> set (str ''not json at all'')"
  "code (CHR ''{'') \<notin> set (str ''not json'')"
  "code (CHR ''`'') \<notin> set (str ''not json'')"
  by (simp_all add: str_def code_def)

lemma sample_dumps: "json_dumps sample_lib indent v = Inr (str ''{...}'')"
  by (simp add: sample_lib_def plain_dumps_def)

lemma deep_loads: "json_loads deep_lib deep_text = Inl RecursionError"
  by (simp add: deep_lib_def)

text \<open>
  Claim C6, amended: \<^verbatim>\<open>parse_json_from_response\<close> returns a value whose type is \<^verbatim>\<open>dict\<close> as
  it is. On a string it returns what \<^verbatim>\<open>json.loads\<close> gives for the whole string; when that
  fails with \<^verbatim>\<open>JSONDecodeError\<close>, what it gives for the match of the brace pattern; when
  there is no such match or that fails with \<^verbatim>\<open>JSONDecodeError\<close> too, what it gives for the
  group of the code-block pattern; and \<^verbatim>\<open>None\<close> when there is no such match or that fails
  with \<^verbatim>\<open>JSONDecodeError\<close> as well. No \<^verbatim>\<open>JSONDecodeError\<close> leaves the function; an
  exception leaves it on a string only when \<^verbatim>\<open>json.loads\<close> raises one that is not a
  \<^verbatim>\<open>JSONDecodeError\<close>, and such an exception of any attempt made does leave it. The match
  of the brace pattern runs from the first opening brace to the last closing brace after
  it. The group of the code-block pattern is a text from an opening brace to a closing
  brace that stands, within whitespace, between three backticks with an optional
  \<^verbatim>\<open>json\<close> and three backticks.
\<close>

theorem parse_json_from_response_attempts:
  "parse_json_from_response lib (PDict d) = Inr (PDict d) \<and>
   (json_loads lib s = Inr v \<longrightarrow> parse_json_from_response lib (PStr s) = Inr v) \<and>
   (json_loads lib s = Inl (JSONDecodeError msg) \<and>
    re_search brace_rx s = Some json_match \<and> json_loads lib (group0 json_match) = Inr v \<longrightarrow>
      parse_json_from_response lib (PStr s) = Inr v) \<and>
   (json_loads lib s = Inl (JSONDecodeError msg) \<and>
    (re_search brace_rx s = None \<or>
     (\<exists>json_match msg'. re_search brace_rx s = Some json_match \<and>
        json_loads lib (group0 json_match) = Inl (JSONDecodeError msg'))) \<and>
    re_search fence_rx s = Some code_block_match \<and>
    json_loads lib (group1 code_block_match) = Inr v \<longrightarrow>
      parse_json_from_response lib (PStr s) = Inr v) \<and>
   (json_loads lib s = Inl (JSONDecodeError msg) \<and>
    (re_search brace_rx s = None \<or>
     (\<exists>json_match msg'. re_search brace_rx s = Some json_match \<and>
        json_loads lib (group0 json_match) = Inl (JSONDecodeError msg'))) \<and>
    (re_search fence_rx s = None \<or>
     (\<exists>code_block_match msg'. re_search fence_rx s = Some code_block_match \<and>
        json_loads lib (group1 code_block_match) = Inl (JSONDecodeError msg'))) \<longrightarrow>
      parse_json_from_response lib (PStr s) = Inr PNone) \<and>
   (parse_json_from_response lib (PStr s) = Inl err \<longrightarrow>
      (\<forall>msg'. err \<noteq> JSONDecodeError msg') \<and> (\<exists>t. json_loads lib t = Inl err)) \<and>
   (json_loads lib s = Inl err \<and> (\<forall>msg'. err \<noteq> JSONDecodeError msg') \<longrightarrow>
      parse_json_from_response lib (PStr s) = Inl err) \<and>
   (json_loads lib s = Inl (JSONDecodeError msg) \<and>
    re_search brace_rx s = Some json_match \<and>
    json_loads lib (group0 json_match) = Inl err \<and>
    (\<forall>msg'. err \<noteq> JSONDecodeError msg') \<longrightarrow>
      parse_json_from_response lib (PStr s) = Inl err) \<and>
   (json_loads lib s = Inl (JSONDecodeError msg) \<and>
    (re_search brace_rx s = None \<or>
     (\<exists>json_match msg'. re_search brace_rx s = Some json_match \<and>
        json_loads lib (group0 json_match) = Inl (JSONDecodeError msg'))) \<and>
    re_search fence_rx s = Some code_block_match \<and>
    json_loads lib (group1 code_block_match) = Inl err \<and>
    (\<forall>msg'. err \<noteq> JSONDecodeError msg') \<longrightarrow>
      parse_json_from_response lib (PStr s) = Inl err) \<and>
   map_option group0 (re_search brace_rx s) =
     (case dropWhile (\<lambda>c. c \<noteq> code (CHR ''{'')) s of
        [] \<Rightarrow> None
      | b # t \<Rightarrow>
          if code (CHR ''}'') \<in> set t
          then Some (b # rev (dropWhile (\<lambda>c. c \<noteq> code (CHR ''}'')) (rev t)))
          else None) \<and>
   (re_search fence_rx s = Some code_block_match \<longrightarrow>
      (\<exists>pre tag ws1 body ws2 post.
         s = pre @ (str ''```'') @ tag @ ws1 @ group1 code_block_match @ ws2 @ (str ''```'') @ post \<and>
         (tag = [] \<or> tag = str ''json'') \<and>
         (\<forall>c \<in> set ws1. is_space c) \<and> (\<forall>c \<in> set ws2. is_space c) \<and>
         group1 code_block_match = code (CHR ''{'') # body @ (str ''}'')))"
proof (intro conjI impI allI)
  show "parse_json_from_response lib (PDict d) = Inr (PDict d)"
    by (simp add: parse_json_from_response_def)
next
  assume "json_loads lib s = Inr v"
  then show "parse_json_from_response lib (PStr s) = Inr v"
    by (rule parse_loads)
next
  assume "json_loads lib s = Inl (JSONDecodeError msg) \<and>
    re_search brace_rx s = Some json_match \<and> json_loads lib (group0 json_match) = Inr v"
  then show "parse_json_from_response lib (PStr s) = Inr v"
    by (simp add: parse_json_from_response_def try_loads_pass try_loads_value)
next
  assume "json_loads lib s = Inl (JSONDecodeError msg) \<and>
    (re_search brace_rx s = None \<or>
     (\<exists>json_match msg'. re_search brace_rx s = Some json_match \<and>
        json_loads lib (group0 json_match) = Inl (JSONDecodeError msg'))) \<and>
    re_search fence_rx s = Some code_block_match \<and>
    json_loads lib (group1 code_block_match) = Inr v"
  then show "parse_json_from_response lib (PStr s) = Inr v"
    by (auto simp: parse_json_from_response_def try_loads_pass try_loads_value)
next
  assume "json_loads lib s = Inl (JSONDecodeError msg) \<and>
    (re_search brace_rx s = None \<or>
     (\<exists>json_match msg'. re_search brace_rx s = Some json_match \<and>
        json_loads lib (group0 json_match) = Inl (JSONDecodeError msg'))) \<and>
    (re_search fence_rx s = None \<or>
     (\<exists>code_block_match msg'. re_search fence_rx s = Some code_block_match \<and>
        json_loads lib (group1 code_block_match) = Inl (JSONDecodeError msg')))"
  then show "parse_json_from_response lib (PStr s) = Inr PNone"
    by (auto simp: parse_json_from_response_def try_loads_pass)
next
  fix msg'
  assume "parse_json_from_response lib (PStr s) = Inl err"
  then show "err \<noteq> JSONDecodeError msg'"
    using parse_no_decode_error [of lib "PStr s" msg'] by auto
next
  assume "parse_json_from_response lib (PStr s) = Inl err"
  then obtain t where "try_loads lib t = Inl err"
    by (auto simp: parse_json_from_response_def split: sum.splits option.splits)
  then show "\<exists>t. json_loads lib t = Inl err"
    using try_loads_Inl by blast
next
  assume "json_loads lib s = Inl err \<and> (\<forall>msg'. err \<noteq> JSONDecodeError msg')"
  then have "try_loads lib s = Inl err" by (simp add: try_loads_raise)
  then show "parse_json_from_response lib (PStr s) = Inl err"
    by (simp add: parse_json_from_response_def)
next
  assume a: "json_loads lib s = Inl (JSONDecodeError msg) \<and>
    re_search brace_rx s = Some json_match \<and>
    json_loads lib (group0 json_match) = Inl err \<and>
    (\<forall>msg'. err \<noteq> JSONDecodeError msg')"
  then have "try_loads lib (group0 json_match) = Inl err" by (simp add: try_loads_raise)
  with a show "parse_json_from_response lib (PStr s) = Inl err"
    by (simp add: parse_json_from_response_def try_loads_pass)
next
  assume a: "json_loads lib s = Inl (JSONDecodeError msg) \<and>
    (re_search brace_rx s = None \<or>
     (\<exists>json_match msg'. re_search brace_rx s = Some json_match \<and>
        json_loads lib (group0 json_match) = Inl (JSONDecodeError msg'))) \<and>
    re_search fence_rx s = Some code_block_match \<and>
    json_loads lib (group1 code_block_match) = Inl err \<and>
    (\<forall>msg'. err \<noteq> JSONDecodeError msg')"
  then have "try_loads lib (group1 code_block_match) = Inl err" by (simp add: try_loads_raise)
  with a show "parse_json_from_response lib (PStr s) = Inl err"
    by (auto simp: parse_json_from_response_def try_loads_pass)
next
  show "map_option group0 (re_search brace_rx s) =
     (case dropWhile (\<lambda>c. c \<noteq> code (CHR ''{'')) s of
        [] \<Rightarrow> None
      | b # t \<Rightarrow>
          if code (CHR ''}'') \<in> set t
          then Some (b # rev (dropWhile (\<lambda>c. c \<noteq> code (CHR ''}'')) (rev t)))
          else None)"
  proof -
    have "map_option group0
        (case xs of [] \<Rightarrow> None
         | b # t \<Rightarrow> if P t then Some (b # f t, None, None) else None) =
        (case xs of [] \<Rightarrow> None | b # t \<Rightarrow> if P t then Some (b # f t) else None)"
      for xs :: pystr and P f
      by (cases xs) (simp_all add: group0_def)
    then show ?thesis unfolding brace_search_first_to_last .
  qed
next
  assume "re_search fence_rx s = Some code_block_match"
  then show "\<exists>pre tag ws1 body ws2 post.
         s = pre @ (str ''```'') @ tag @ ws1 @ group1 code_block_match @ ws2 @ (str ''```'') @ post \<and>
         (tag = [] \<or> tag = str ''json'') \<and>
         (\<forall>c \<in> set ws1. is_space c) \<and> (\<forall>c \<in> set ws2. is_space c) \<and>
         group1 code_block_match = code (CHR ''{'') # body @ (str ''}'')"
    by (rule fence_search_shape)
qed

theorem parse_json_from_response_attempts_witness:
  \<open>parse_json_from_response sample_lib (PDict [(str ''x'', PInt 1)]) =
     Inr (PDict [(str ''x'', PInt 1)]) \<and>
   parse_json_from_response sample_lib (PStr (str ''{"x":1}'')) =
     Inr (PDict [(str ''x'', PInt 1)]) \<and>
   parse_json_from_response sample_lib (PStr (str ''Answer: {"x":1}'')) =
     Inr (PDict [(str ''x'', PInt 1)]) \<and>
   parse_json_from_response sample_lib (PStr (str ''```json {} ``` }'')) = Inr (PDict []) \<and>
   parse_json_from_response sample_lib (PStr (str ''not json at all'')) = Inr PNone \<and>
   parse_json_from_response deep_lib (PStr deep_text) = Inl RecursionError\<close>
proof -
  obtain m1 where m1: \<open>re_search brace_rx (str ''Answer: {"x":1}'') = Some m1\<close>
      \<open>group0 m1 = str ''{"x":1}''\<close>
    using sample_searches(1) by auto
  obtain m2 where m2: \<open>re_search brace_rx (str ''```json {} ``` }'') = Some m2\<close>
      \<open>group0 m2 = str ''{} ``` }''\<close>
    using sample_searches(2) by auto
  obtain m3 where m3: \<open>re_search fence_rx (str ''```json {} ``` }'') = Some m3\<close>
      \<open>group1 m3 = str ''{}''\<close>
    using sample_searches(3) by auto
  note loads = sample_loads
  have g1: \<open>json_loads sample_lib (group0 m1) = Inr (PDict [(str ''x'', PInt 1)])\<close>
    by (simp only: m1(2) loads(1))
  have g2: \<open>json_loads sample_lib (group0 m2) = Inl (JSONDecodeError (str ''Expecting value''))\<close>
    by (simp only: m2(2) loads(4))
  have g3: \<open>json_loads sample_lib (group1 m3) = Inr (PDict [])\<close>
    by (simp only: m3(2) loads(5))
  have a: \<open>parse_json_from_response sample_lib (PDict [(str ''x'', PInt 1)]) =
      Inr (PDict [(str ''x'', PInt 1)])\<close>
    using parse_json_from_response_attempts [of sample_lib "[(str ''x'', PInt 1)]",
        THEN conjunct1]
    by simp
  have b: \<open>parse_json_from_response sample_lib (PStr (str ''{"x":1}'')) =
      Inr (PDict [(str ''x'', PInt 1)])\<close>
    using parse_json_from_response_attempts [of sample_lib _ \<open>str ''{"x":1}''\<close>
        "PDict [(str ''x'', PInt 1)]", THEN conjunct2, THEN conjunct1] loads(1)
    by simp
  have c: \<open>parse_json_from_response sample_lib (PStr (str ''Answer: {"x":1}'')) =
      Inr (PDict [(str ''x'', PInt 1)])\<close>
    using parse_json_from_response_attempts [of sample_lib _ \<open>str ''Answer: {"x":1}''\<close>
        "PDict [(str ''x'', PInt 1)]" "str ''Expecting value''" m1,
        THEN conjunct2, THEN conjunct2, THEN conjunct1] loads(2) m1(1) g1
    by simp
  have d: \<open>parse_json_from_response sample_lib (PStr (str ''```json {} ``` }'')) =
      Inr (PDict [])\<close>
    using parse_json_from_response_attempts [of sample_lib _ \<open>str ''```json {} ``` }''\<close>
        "PDict []" "str ''Expecting value''" _ m3,
        THEN conjunct2, THEN conjunct2, THEN conjunct2, THEN conjunct1]
      loads(3) m2(1) g2 m3(1) g3
    by simp
  have e: \<open>parse_json_from_response sample_lib (PStr (str ''not json at all'')) = Inr PNone\<close>
    using parse_json_from_response_attempts [of sample_lib _ \<open>str ''not json at all''\<close>
        _ "str ''Expecting value''",
        THEN conjunct2, THEN conjunct2, THEN conjunct2, THEN conjunct2, THEN conjunct1]
      loads(6)
      brace_search_no_open [OF sample_no_marks(1)]
      fence_search_no_backtick [OF sample_no_marks(2)]
    by simp
  have f: "parse_json_from_response deep_lib (PStr deep_text) = Inl RecursionError"
    using parse_json_from_response_attempts [of deep_lib _ deep_text _ _ _ _ RecursionError,
        THEN conjunct2, THEN conjunct2, THEN conjunct2, THEN conjunct2, THEN conjunct2,
        THEN conjunct2, THEN conjunct1]
      deep_loads
    by simp
  from a b c d e f show ?thesis by blast
qed

text \<open>
  Claim C6 as stated fails twice. A parsed value that is not a dict, here a list, is not
  passed through: \<^verbatim>\<open>json.loads\<close> raises \<^verbatim>\<open>TypeError\<close> for it. And an exception does leave the
  function on a string: the \<^verbatim>\<open>RecursionError\<close> that \<^verbatim>\<open>json.loads\<close> raises on one thousand
  opening brackets is not caught by the handler of line 20.
\<close>

theorem parse_json_from_response_counterexample:
  "parse_json_from_response sample_lib (PList [PInt 1]) = Inl TypeError \<and>
   parse_json_from_response sample_lib (PList [PInt 1]) \<noteq> Inr (PList [PInt 1]) \<and>
   parse_json_from_response deep_lib (PStr deep_text) = Inl RecursionError"
  by (simp add: parse_json_from_response_def try_loads_def deep_lib_def)

section \<open>What the field-level scorer returns\<close>

lemma update_fresh: "key \<notin> fst ` set acc \<Longrightarrow> AList.update key v acc = acc @ [(key, v)]"
  by (induction acc) auto

lemma fold_update_fresh:
  "distinct keys \<Longrightarrow> set keys \<inter> fst ` set acc = {} \<Longrightarrow>
   fold (\<lambda>key key_scores. AList.update key (f key) key_scores) keys acc =
     acc @ map (\<lambda>key. (key, f key)) keys"
proof (induction keys arbitrary: acc)
  case Nil
  then show ?case by simp
next
  case (Cons key keys)
  have fresh: "key \<notin> fst ` set acc" using Cons.prems(2) by auto
  have "set keys \<inter> fst ` set (acc @ [(key, f key)]) = {}"
    using Cons.prems by auto
  with Cons.IH [of "acc @ [(key, f key)]"] Cons.prems(1) fresh show ?case
    by (simp add: update_fresh)
qed

lemma field_scores_dicts:
  "calculate_field_level_scores lib (PDict e) (PDict x) =
     map (\<lambda>key. (key, calculate_similarity_score (dict_get e key) (dict_get x key)
       (DeepDiff lib (dict_get e key) (dict_get x key) True))) (remdups (map fst e @ map fst x))"
  using fold_update_fresh [of "remdups (map fst e @ map fst x)" "[]"]
  by (simp add: calculate_field_level_scores_def Let_def)

lemma field_scores_not_dicts:
  "(\<forall>d. expected \<noteq> PDict d) \<or> (\<forall>d. extracted \<noteq> PDict d) \<Longrightarrow>
   calculate_field_level_scores lib expected extracted = []"
  by (auto simp: calculate_field_level_scores_def split: pyval.splits)

lemma field_scores_range:
  "(key, key_score) \<in> set (calculate_field_level_scores lib expected extracted) \<Longrightarrow>
   0 \<le> key_score \<and> key_score \<le> 1"
proof (cases "(\<exists>e. expected = PDict e) \<and> (\<exists>x. extracted = PDict x)")
  case True
  then obtain e x where "expected = PDict e" "extracted = PDict x" by blast
  moreover assume "(key, key_score) \<in> set (calculate_field_level_scores lib expected extracted)"
  ultimately show ?thesis
    using calculate_similarity_score_range by (auto simp: field_scores_dicts)
next
  case False
  moreover assume "(key, key_score) \<in> set (calculate_field_level_scores lib expected extracted)"
  ultimately show ?thesis
    using field_scores_not_dicts [of expected extracted lib] by auto
qed

lemma map_of_key_scores:
  "key \<in> set keys \<Longrightarrow> map_of (map (\<lambda>key. (key, f key)) keys) key = Some (f key)"
  by (induction keys) auto

lemma sample_field_scores:
  "calculate_field_level_scores sample_lib
     (PDict [(str ''name'', PStr (str ''Alice'')), (str ''age'', PInt 30)])
     (PDict [(str ''name'', PStr (str ''Alice'')), (str ''age'', PInt 31)]) = [(str ''name'', 1), (str ''age'', 0)]"
  by (simp add: run_defs sample_defs)

text \<open>
  Claim C9: \<^verbatim>\<open>calculate_field_level_scores\<close> returns the empty map when either side is
  not a dict. For two dicts the keys of the result are exactly the keys of either side,
  each once, and every key is mapped to the similarity score of the two values stored
  under it (\<^verbatim>\<open>None\<close> for a missing one) with their own diff, taken with
  \<^verbatim>\<open>ignore_order=True\<close>.
\<close>

theorem field_level_scores_keys_and_values:
  "((\<forall>d. expected \<noteq> PDict d) \<or> (\<forall>d. extracted \<noteq> PDict d) \<longrightarrow>
      calculate_field_level_scores lib expected extracted = []) \<and>
   fst ` set (calculate_field_level_scores lib (PDict e) (PDict x)) = fst ` set e \<union> fst ` set x \<and>
   distinct (map fst (calculate_field_level_scores lib (PDict e) (PDict x))) \<and>
   (\<forall>key \<in> fst ` set e \<union> fst ` set x.
      map_of (calculate_field_level_scores lib (PDict e) (PDict x)) key =
        Some (calculate_similarity_score (dict_get e key) (dict_get x key)
                (DeepDiff lib (dict_get e key) (dict_get x key) True)))"
proof -
  have keys: "set (remdups (map fst e @ map fst x)) = fst ` set e \<union> fst ` set x"
    by simp
  have a: "(\<forall>d. expected \<noteq> PDict d) \<or> (\<forall>d. extracted \<noteq> PDict d) \<longrightarrow>
      calculate_field_level_scores lib expected extracted = []"
    using field_scores_not_dicts by blast
  have b: "fst ` set (calculate_field_level_scores lib (PDict e) (PDict x)) =
      fst ` set e \<union> fst ` set x"
    unfolding field_scores_dicts by (simp add: image_Un image_image)
  have c: "distinct (map fst (calculate_field_level_scores lib (PDict e) (PDict x)))"
    unfolding field_scores_dicts by (simp add: comp_def)
  have d: "map_of (calculate_field_level_scores lib (PDict e) (PDict x)) key =
        Some (calculate_similarity_score (dict_get e key) (dict_get x key)
                (DeepDiff lib (dict_get e key) (dict_get x key) True))"
    if "key \<in> fst ` set e \<union> fst ` set x" for key
    unfolding field_scores_dicts using that keys map_of_key_scores by fast
  from a b c d show ?thesis by blast
qed

theorem field_level_scores_keys_and_values_witness:
  "calculate_field_level_scores sample_lib (PList [PInt 1]) (PDict [(str ''a'', PInt 1)]) = [] \<and>
   fst ` set (calculate_field_level_scores sample_lib
       (PDict [(str ''a'', PInt 1), (str ''b'', PInt 2)]) (PDict [(str ''b'', PInt 3), (str ''c'', PInt 4)])) =
     {str ''a'', str ''b'', str ''c''} \<and>
   map_of (calculate_field_level_scores sample_lib
       (PDict [(str ''a'', PInt 1), (str ''b'', PInt 2)]) (PDict [(str ''b'', PInt 3), (str ''c'', PInt 4)])) (str ''b'') =
     Some (calculate_similarity_score (PInt 2) (PInt 3) (leaf_diff (PInt 2) (PInt 3) True))"
  using field_level_scores_keys_and_values [of "PList [PInt 1]" "PDict [(str ''a'', PInt 1)]"
      sample_lib "[(str ''a'', PInt 1), (str ''b'', PInt 2)]" "[(str ''b'', PInt 3), (str ''c'', PInt 4)]"]
  by (simp add: dict_get_def sample_lib_def insert_commute str_def code_def)

text \<open>
  Claim C10: for two dicts, a key that only one side has, with a value that is not
  \<^verbatim>\<open>None\<close>, gets the field score 0, whatever the value is and whatever the differ
  reports.
\<close>

theorem one_sided_key_scores_zero:
  "(key \<in> fst ` set e \<and> key \<notin> fst ` set x \<and> dict_get e key \<noteq> PNone \<longrightarrow>
      map_of (calculate_field_level_scores lib (PDict e) (PDict x)) key = Some 0) \<and>
   (key \<notin> fst ` set e \<and> key \<in> fst ` set x \<and> dict_get x key \<noteq> PNone \<longrightarrow>
      map_of (calculate_field_level_scores lib (PDict e) (PDict x)) key = Some 0)"
proof -
  have missing: "dict_get d key = PNone" if "key \<notin> fst ` set d" for d
  proof -
    have "map_of d key = None" using that by (simp add: map_of_eq_None_iff)
    then show ?thesis by (simp add: dict_get_def)
  qed
  have score: "map_of (calculate_field_level_scores lib (PDict e) (PDict x)) key =
        Some (calculate_similarity_score (dict_get e key) (dict_get x key)
                (DeepDiff lib (dict_get e key) (dict_get x key) True))"
    if "key \<in> fst ` set e \<union> fst ` set x"
    unfolding field_scores_dicts using that map_of_key_scores [of key "remdups (map fst e @ map fst x)"]
    by simp
  show ?thesis
    using missing [of e] missing [of x] score
    by (auto simp: calculate_similarity_score_def)
qed

theorem one_sided_key_scores_zero_witness:
  "map_of (calculate_field_level_scores sample_lib
       (PDict [(str ''items'', PList [PInt 1, PInt 2, PInt 3])]) (PDict [])) (str ''items'') = Some 0 \<and>
   map_of (calculate_field_level_scores sample_lib
       (PDict []) (PDict [(str ''extra'', PDict [(str ''a'', PInt 1), (str ''b'', PInt 2)])])) (str ''extra'') = Some 0"
  using one_sided_key_scores_zero [of "str ''items''" "[(str ''items'', PList [PInt 1, PInt 2, PInt 3])]"
      "[]" sample_lib]
    one_sided_key_scores_zero [of "str ''extra''" "[]"
      "[(str ''extra'', PDict [(str ''a'', PInt 1), (str ''b'', PInt 2)])]" sample_lib]
  by (simp add: dict_get_def str_def code_def)

section \<open>What the metric returns\<close>

lemma metric_after_parse:
  assumes "parse_json_from_response lib output_true = Inr expected"
      and "parse_json_from_response lib output = Inr extracted"
  shows "llm_structured_output_metric lib output output_true =
     (if extracted = PNone
      then return_observation lib 0 (Some 2) (extraction_failure expected) output
      else if calculate_field_level_scores lib expected extracted = [] then Inl ZeroDivisionError
      else return_observation lib
             (sum_list (map snd (calculate_field_level_scores lib expected extracted)) /
              real (length (calculate_field_level_scores lib expected extracted)))
             (Some 2)
             (scored_observation
                (sum_list (map snd (calculate_field_level_scores lib expected extracted)) /
                 real (length (calculate_field_level_scores lib expected extracted)))
                extracted expected (calculate_field_level_scores lib expected extracted))
             output)"
  using assms by (simp add: llm_structured_output_metric_def Let_def)

text \<open>
  Claim C5: when both parses succeed, the overall score the metric returns is the
  arithmetic mean of the field-level scores: with a field score map that is not empty the
  metric returns the sum of its values over their number, together with the serialised
  observation and the output. For the ground truth \<^verbatim>\<open>{"name":"Alice","age":30}\<close> and the
  output \<^verbatim>\<open>{"name":"Alice","age":31}\<close>, with \<^verbatim>\<open>json.loads\<close> parsing the two texts and the
  differ reporting nothing for the two equal names and one changed value for the two
  ages, the field scores are 1 for \<^verbatim>\<open>name\<close> and 0 for \<^verbatim>\<open>age\<close> and the score is 0.5.
\<close>

theorem overall_score_is_mean:
  \<open>(parse_json_from_response lib output_true = Inr expected \<and>
    parse_json_from_response lib output = Inr extracted \<and>
    extracted \<noteq> PNone \<and>
    field_scores = calculate_field_level_scores lib expected extracted \<and>
    field_scores \<noteq> [] \<and>
    overall_score = sum_list (map snd field_scores) / real (length field_scores) \<and>
    json_dumps lib (Some 2)
      (scored_observation overall_score extracted expected field_scores) = Inr txt \<longrightarrow>
    llm_structured_output_metric lib output output_true = Inr (overall_score, txt, output)) \<and>
   (json_loads lib (str ''{"name":"Alice","age":30}'') =
      Inr (PDict [(str ''name'', PStr (str ''Alice'')), (str ''age'', PInt 30)]) \<and>
    json_loads lib (str ''{"name":"Alice","age":31}'') =
      Inr (PDict [(str ''name'', PStr (str ''Alice'')), (str ''age'', PInt 31)]) \<and>
    DeepDiff lib (PStr (str ''Alice'')) (PStr (str ''Alice'')) True = empty_diff \<and>
    DeepDiff lib (PInt 30) (PInt 31) True =
      empty_diff\<lparr>values_changed := Some [(str ''root'', PInt 31, PInt 30)]\<rparr> \<and>
    scenario_scores = calculate_field_level_scores lib
      (PDict [(str ''name'', PStr (str ''Alice'')), (str ''age'', PInt 30)])
      (PDict [(str ''name'', PStr (str ''Alice'')), (str ''age'', PInt 31)]) \<and>
    json_dumps lib (Some 2)
      (scored_observation (1 / 2)
         (PDict [(str ''name'', PStr (str ''Alice'')), (str ''age'', PInt 31)])
         (PDict [(str ''name'', PStr (str ''Alice'')), (str ''age'', PInt 30)])
         scenario_scores) = Inr txt' \<longrightarrow>
    fst ` set scenario_scores = {str ''name'', str ''age''} \<and>
    map_of scenario_scores (str ''name'') = Some 1 \<and>
    map_of scenario_scores (str ''age'') = Some 0 \<and>
    llm_structured_output_metric lib (PStr (str ''{"name":"Alice","age":31}''))
      (PStr (str ''{"name":"Alice","age":30}'')) =
      Inr (1 / 2, txt', PStr (str ''{"name":"Alice","age":31}'')))\<close>
proof (intro conjI impI)
  assume a: "parse_json_from_response lib output_true = Inr expected \<and>
    parse_json_from_response lib output = Inr extracted \<and>
    extracted \<noteq> PNone \<and>
    field_scores = calculate_field_level_scores lib expected extracted \<and>
    field_scores \<noteq> [] \<and>
    overall_score = sum_list (map snd field_scores) / real (length field_scores) \<and>
    json_dumps lib (Some 2)
      (scored_observation overall_score extracted expected field_scores) = Inr txt"
  then have p: "parse_json_from_response lib output_true = Inr expected"
      "parse_json_from_response lib output = Inr extracted"
    by simp_all
  from a have ne: "extracted \<noteq> PNone" "field_scores \<noteq> []"
    and fs: "calculate_field_level_scores lib expected extracted = field_scores"
    and os: "sum_list (map snd field_scores) / real (length field_scores) = overall_score"
    and dumps: "json_dumps lib (Some 2)
      (scored_observation overall_score extracted expected field_scores) = Inr txt"
    by blast+
  have "llm_structured_output_metric lib output output_true =
      return_observation lib overall_score (Some 2)
        (scored_observation overall_score extracted expected field_scores) output"
    unfolding metric_after_parse [OF p] fs os using ne by simp
  then show "llm_structured_output_metric lib output output_true = Inr (overall_score, txt, output)"
    using dumps by (simp add: return_observation_def)
next
  let ?e = "PDict [(str ''name'', PStr (str ''Alice'')), (str ''age'', PInt 30)]"
  let ?x = "PDict [(str ''name'', PStr (str ''Alice'')), (str ''age'', PInt 31)]"
  assume h: \<open>json_loads lib (str ''{"name":"Alice","age":30}'') = Inr ?e \<and>
    json_loads lib (str ''{"name":"Alice","age":31}'') = Inr ?x \<and>
    DeepDiff lib (PStr (str ''Alice'')) (PStr (str ''Alice'')) True = empty_diff \<and>
    DeepDiff lib (PInt 30) (PInt 31) True =
      empty_diff\<lparr>values_changed := Some [(str ''root'', PInt 31, PInt 30)]\<rparr> \<and>
    scenario_scores = calculate_field_level_scores lib ?e ?x \<and>
    json_dumps lib (Some 2) (scored_observation (1 / 2) ?x ?e scenario_scores) = Inr txt'\<close>
  then have "calculate_field_level_scores lib ?e ?x = [(str ''name'', 1), (str ''age'', 0)]"
    by (simp add: field_scores_dicts dict_get_def calculate_similarity_score_def
        diff_truthy_def empty_diff_def get_or_empty_def add_paths_def add_items_def
        str_def code_def)
  with h have fs: "scenario_scores = [(str ''name'', 1), (str ''age'', 0)]"
    and cfs: "calculate_field_level_scores lib ?e ?x = scenario_scores"
    by simp_all
  show "fst ` set scenario_scores = {str ''name'', str ''age''}"
    and "map_of scenario_scores (str ''name'') = Some 1"
    and "map_of scenario_scores (str ''age'') = Some 0"
    unfolding fs by (simp_all add: str_def code_def)
  from h have p: \<open>parse_json_from_response lib (PStr (str ''{"name":"Alice","age":30}'')) = Inr ?e\<close>
      \<open>parse_json_from_response lib (PStr (str ''{"name":"Alice","age":31}'')) = Inr ?x\<close>
    by (simp_all add: parse_loads)
  from h have dumps:
      "json_dumps lib (Some 2) (scored_observation (1 / 2) ?x ?e scenario_scores) = Inr txt'"
    by blast
  have "llm_structured_output_metric lib (PStr (str ''{\"name\":\"Alice\",\"age\":31}''))
      (PStr (str ''{\"name\":\"Alice\",\"age\":30}'')) =
      return_observation lib (1 / 2) (Some 2) (scored_observation (1 / 2) ?x ?e scenario_scores)
        (PStr (str ''{\"name\":\"Alice\",\"age\":31}''))"
    unfolding metric_after_parse [OF p] cfs unfolding fs by simp
  then show \<open>llm_structured_output_metric lib (PStr (str ''{"name":"Alice","age":31}''))
      (PStr (str ''{"name":"Alice","age":30}'')) =
      Inr (1 / 2, txt', PStr (str ''{"name":"Alice","age":31}''))\<close>
    using dumps by (simp add: return_observation_def)
qed

theorem overall_score_is_mean_witness:
  \<open>map_of (calculate_field_level_scores sample_lib
       (PDict [(str ''name'', PStr (str ''Alice'')), (str ''age'', PInt 30)])
       (PDict [(str ''name'', PStr (str ''Alice'')), (str ''age'', PInt 31)])) (str ''name'') = Some 1 \<and>
   map_of (calculate_field_level_scores sample_lib
       (PDict [(str ''name'', PStr (str ''Alice'')), (str ''age'', PInt 30)])
       (PDict [(str ''name'', PStr (str ''Alice'')), (str ''age'', PInt 31)])) (str ''age'') = Some 0 \<and>
   llm_structured_output_metric sample_lib (PStr (str ''{"name":"Alice","age":31}''))
     (PStr (str ''{"name":"Alice","age":30}'')) =
     Inr ((1 + 0) / 2, str ''{...}'', PStr (str ''{"name":"Alice","age":31}''))\<close>
  using overall_score_is_mean [of sample_lib
      \<open>PStr (str ''{"name":"Alice","age":30}'')\<close>
      "PDict [(str ''name'', PStr (str ''Alice'')), (str ''age'', PInt 30)]"
      \<open>PStr (str ''{"name":"Alice","age":31}'')\<close>
      "PDict [(str ''name'', PStr (str ''Alice'')), (str ''age'', PInt 31)]"
      "[(str ''name'', 1), (str ''age'', 0)]" "1 / 2" "str ''{...}''"
      "[(str ''name'', 1), (str ''age'', 0)]" "str ''{...}''"]
  by (simp add: run_defs sample_defs)

text \<open>
  Claim C8: when the extractor returns \<^verbatim>\<open>None\<close> for the output while the ground truth has
  been parsed, the metric returns the score 0, the serialisation of an observation that
  holds the score, the extraction-failure message and the parsed expected data, and the
  output. For the output \<^verbatim>\<open>not json at all\<close> against the ground truth \<^verbatim>\<open>{"x":1}\<close> the
  observation holds the expected data \<^verbatim>\<open>{"x": 1}\<close>.
\<close>

theorem extraction_failure_scores_zero:
  \<open>(parse_json_from_response lib output_true = Inr expected \<and>
    parse_json_from_response lib output = Inr PNone \<and>
    json_dumps lib (Some 2)
      (PDict [(str ''score'', PFloat 0),
              (str ''error'', PStr (str ''Failed to extract valid JSON from LLM response'')),
              (str ''expected_data'', expected)]) = Inr txt \<longrightarrow>
    llm_structured_output_metric lib output output_true = Inr (0, txt, output)) \<and>
   (json_loads lib (str ''not json at all'') = Inl (JSONDecodeError msg) \<and>
    json_loads lib (str ''{"x":1}'') = Inr (PDict [(str ''x'', PInt 1)]) \<and>
    json_dumps lib (Some 2)
      (PDict [(str ''score'', PFloat 0),
              (str ''error'', PStr (str ''Failed to extract valid JSON from LLM response'')),
              (str ''expected_data'', PDict [(str ''x'', PInt 1)])]) = Inr txt' \<longrightarrow>
    llm_structured_output_metric lib (PStr (str ''not json at all'')) (PStr (str ''{"x":1}'')) =
      Inr (0, txt', PStr (str ''not json at all'')))\<close>
proof (intro conjI impI)
  assume a: "parse_json_from_response lib output_true = Inr expected \<and>
    parse_json_from_response lib output = Inr PNone \<and>
    json_dumps lib (Some 2)
      (PDict [(str ''score'', PFloat 0),
              (str ''error'', PStr (str ''Failed to extract valid JSON from LLM response'')),
              (str ''expected_data'', expected)]) = Inr txt"
  then have p: "parse_json_from_response lib output_true = Inr expected"
      "parse_json_from_response lib output = Inr PNone"
    by blast+
  show "llm_structured_output_metric lib output output_true = Inr (0, txt, output)"
    unfolding metric_after_parse [OF p] using a
    by (simp add: return_observation_def extraction_failure_def)
next
  assume a: \<open>json_loads lib (str ''not json at all'') = Inl (JSONDecodeError msg) \<and>
    json_loads lib (str ''{"x":1}'') = Inr (PDict [(str ''x'', PInt 1)]) \<and>
    json_dumps lib (Some 2)
      (PDict [(str ''score'', PFloat 0),
              (str ''error'', PStr (str ''Failed to extract valid JSON from LLM response'')),
              (str ''expected_data'', PDict [(str ''x'', PInt 1)])]) = Inr txt'\<close>
  then have p: \<open>parse_json_from_response lib (PStr (str ''{"x":1}'')) = Inr (PDict [(str ''x'', PInt 1)])\<close>
      "parse_json_from_response lib (PStr (str ''not json at all'')) = Inr PNone"
    using parse_nothing_found [OF _ sample_no_marks(1,2), of lib msg]
    by (simp_all add: parse_loads)
  show \<open>llm_structured_output_metric lib (PStr (str ''not json at all'')) (PStr (str ''{"x":1}'')) =
      Inr (0, txt', PStr (str ''not json at all''))\<close>
    unfolding metric_after_parse [OF p] using a
    by (simp add: return_observation_def extraction_failure_def)
qed

theorem extraction_failure_scores_zero_witness:
  \<open>llm_structured_output_metric sample_lib (PStr (str ''not json at all'')) (PStr (str ''{"x":1}'')) =
     Inr (0, str ''{...}'', PStr (str ''not json at all''))\<close>
  using extraction_failure_scores_zero [of sample_lib \<open>PStr (str ''{"x":1}'')\<close>
      "PDict [(str ''x'', PInt 1)]" "PStr (str ''not json at all'')" "str ''{...}''" "str ''Expecting value''"
      "str ''{...}''"]
    parse_nothing_found [OF sample_loads(6) sample_no_marks(1,2)] sample_loads(1,6)
    sample_dumps
  by (simp add: parse_loads)

text \<open>
  Claim C2 says that no exception leaves the metric, in particular not when the field
  score map is empty. The code does otherwise: whenever both calls of the extractor
  return, the extracted value is not \<^verbatim>\<open>None\<close> and the field score map is empty, line 186
  divides by zero and \<^verbatim>\<open>ZeroDivisionError\<close> leaves the metric.
\<close>

theorem empty_field_scores_raise:
  "parse_json_from_response lib output_true = Inr expected \<and>
   parse_json_from_response lib output = Inr extracted \<and>
   extracted \<noteq> PNone \<and>
   calculate_field_level_scores lib expected extracted = [] \<longrightarrow>
   llm_structured_output_metric lib output output_true = Inl ZeroDivisionError"
proof
  assume a: "parse_json_from_response lib output_true = Inr expected \<and>
   parse_json_from_response lib output = Inr extracted \<and>
   extracted \<noteq> PNone \<and>
   calculate_field_level_scores lib expected extracted = []"
  then have p: "parse_json_from_response lib output_true = Inr expected"
      "parse_json_from_response lib output = Inr extracted"
    by blast+
  show "llm_structured_output_metric lib output output_true = Inl ZeroDivisionError"
    unfolding metric_after_parse [OF p] using a by simp
qed

theorem empty_field_scores_raise_witness:
  "llm_structured_output_metric sample_lib (PStr (str ''{}'')) (PStr (str ''{}'')) = Inl ZeroDivisionError"
  using empty_field_scores_raise [of sample_lib "PStr (str ''{}'')" "PDict []" "PStr (str ''{}'')" "PDict []"]
  by (simp add: sample_defs parse_json_from_response_def try_loads_def
      calculate_field_level_scores_def)

text \<open>
  Claim C7 says that a ground truth no strategy can parse is answered with the score 0 and
  a diagnostic holding the truncated ground truth and the parse error. The code does
  otherwise: the extractor never raises \<^verbatim>\<open>JSONDecodeError\<close>, so the handler of lines
  166-170 is never entered; the extractor returns \<^verbatim>\<open>None\<close> for such a ground truth, and
  the metric then returns the extraction-failure observation when the output gives
  \<^verbatim>\<open>None\<close> too, and raises \<^verbatim>\<open>ZeroDivisionError\<close> otherwise.
\<close>

theorem unparseable_ground_truth_not_recovered:
  "parse_json_from_response lib output_true \<noteq> Inl (JSONDecodeError e) \<and>
   (parse_json_from_response lib output_true = Inr PNone \<and>
    parse_json_from_response lib output = Inr extracted \<longrightarrow>
    llm_structured_output_metric lib output output_true =
      (if extracted = PNone
       then return_observation lib 0 (Some 2) (extraction_failure PNone) output
       else Inl ZeroDivisionError))"
proof (intro conjI impI)
  show "parse_json_from_response lib output_true \<noteq> Inl (JSONDecodeError e)"
    by (rule parse_no_decode_error)
next
  assume a: "parse_json_from_response lib output_true = Inr PNone \<and>
    parse_json_from_response lib output = Inr extracted"
  then have p: "parse_json_from_response lib output_true = Inr PNone"
      "parse_json_from_response lib output = Inr extracted"
    by blast+
  have "calculate_field_level_scores lib PNone extracted = []"
    by (simp add: calculate_field_level_scores_def)
  then show "llm_structured_output_metric lib output output_true =
      (if extracted = PNone
       then return_observation lib 0 (Some 2) (extraction_failure PNone) output
       else Inl ZeroDivisionError)"
    unfolding metric_after_parse [OF p] by simp
qed

theorem unparseable_ground_truth_not_recovered_witness:
  \<open>llm_structured_output_metric sample_lib (PStr (str ''{"x":1}'')) (PStr (str ''not json'')) =
     Inl ZeroDivisionError\<close>
  using unparseable_ground_truth_not_recovered [of sample_lib "PStr (str ''not json'')" _
      \<open>PStr (str ''{"x":1}'')\<close> "PDict [(str ''x'', PInt 1)]"]
    parse_nothing_found [OF sample_loads(7) sample_no_marks(3,4)] sample_loads(1)
  by (simp add: parse_loads)

lemma mean_range:
  fixes xs :: "real list"
  assumes "xs \<noteq> []" "\<forall>v \<in> set xs. 0 \<le> v \<and> v \<le> 1"
  shows "0 \<le> sum_list xs / real (length xs) \<and> sum_list xs / real (length xs) \<le> 1"
proof -
  have lo: "0 \<le> sum_list xs" using assms(2) by (simp add: sum_list_nonneg)
  have "sum_list xs \<le> sum_list (map (\<lambda>v. 1) xs)"
    using assms(2) by (induction xs) auto
  hence hi: "sum_list xs \<le> real (length xs)" by (simp add: sum_list_triv)
  have "0 < real (length xs)" using assms(1) by simp
  with lo hi show ?thesis by (simp add: divide_le_eq)
qed

lemma metric_score_range:
  assumes "llm_structured_output_metric lib output output_true = Inr (score, txt, out)"
  shows "0 \<le> score \<and> score \<le> 1"
proof -
  let ?fs = "\<lambda>e x. calculate_field_level_scores lib e x"
  have mean: "0 \<le> sum_list (map snd (?fs e x)) / real (length (?fs e x)) \<and>
      sum_list (map snd (?fs e x)) / real (length (?fs e x)) \<le> 1" if "?fs e x \<noteq> []" for e x
  proof -
    have "\<forall>v \<in> set (map snd (?fs e x)). 0 \<le> v \<and> v \<le> 1"
      using field_scores_range [of _ _ lib e x] by fastforce
    moreover have "map snd (?fs e x) \<noteq> []" using that by simp
    ultimately show ?thesis
      using mean_range [of "map snd (?fs e x)"] by simp
  qed
  show ?thesis
    using assms mean
    by (auto simp: llm_structured_output_metric_def return_observation_def Let_def
        split: sum.splits error.splits if_splits)
qed

text \<open>
  Claim C3: every score the module produces lies between 0 and 1: every result of
  \<^verbatim>\<open>calculate_similarity_score\<close>, every value of the field score map, and the overall
  score of every triple \<^verbatim>\<open>llm_structured_output_metric\<close> returns, whatever the trees, the
  diff and the library are.
\<close>

theorem scores_in_unit_interval:
  "(0 \<le> calculate_similarity_score expected extracted diff \<and>
    calculate_similarity_score expected extracted diff \<le> 1) \<and>
   (\<forall>(key, key_score) \<in> set (calculate_field_level_scores lib expected extracted).
      0 \<le> key_score \<and> key_score \<le> 1) \<and>
   (\<forall>score txt out.
      llm_structured_output_metric lib output output_true = Inr (score, txt, out) \<longrightarrow>
      0 \<le> score \<and> score \<le> 1)"
  using calculate_similarity_score_range field_scores_range metric_score_range
  by blast

lemma sample_metric:
  \<open>llm_structured_output_metric sample_lib (PStr (str ''{"name":"Alice","age":31}''))
     (PStr (str ''{"name":"Alice","age":30}'')) =
   Inr (1 / 2, str ''{...}'', PStr (str ''{"name":"Alice","age":31}''))\<close>
  by (simp add: llm_structured_output_metric_def return_observation_def run_defs sample_defs)

theorem scores_in_unit_interval_witness:
  \<open>llm_structured_output_metric sample_lib (PStr (str ''{"name":"Alice","age":31}''))
     (PStr (str ''{"name":"Alice","age":30}'')) =
     Inr (1 / 2, str ''{...}'', PStr (str ''{"name":"Alice","age":31}'')) \<and>
   (0::real) \<le> 1 / 2 \<and> (1 / 2 :: real) \<le> 1 \<and>
   calculate_field_level_scores sample_lib
     (PDict [(str ''name'', PStr (str ''Alice'')), (str ''age'', PInt 30)])
     (PDict [(str ''name'', PStr (str ''Alice'')), (str ''age'', PInt 31)]) = [(str ''name'', 1), (str ''age'', 0)] \<and>
   calculate_similarity_score (PInt 30) (PInt 31) (leaf_diff (PInt 30) (PInt 31) True) = 0\<close>
  using scores_in_unit_interval [of "PInt 30" "PInt 31" "leaf_diff (PInt 30) (PInt 31) True"
      sample_lib "PDict [(str ''name'', PStr (str ''Alice'')), (str ''age'', PInt 30)]"
      "PDict [(str ''name'', PStr (str ''Alice'')), (str ''age'', PInt 31)]"]
    sample_metric sample_field_scores
  by (simp add: run_defs sample_defs)

end
